theory Spec2Isabelle
  imports Main
begin

section \<open>The Todo API of \<open>src/server.js\<close>\<close>

text \<open>
  The server is an Express application over one SQLite table. The embedding follows the
  file from top to bottom: the values a JSON body carries, the validator functions the
  chain \<open>validateTask\<close> names, the table and the five SQL statements, the route
  handlers, and the stack of layers in the order in which \<open>server.js\<close> registers them.

  Scope of the model.
  \<^item> A body field is absent, \<open>null\<close>, a boolean or a string; numbers, arrays and objects
    are left out. Strings are ASCII texts.
  \<^item> The path parameter \<open>:id\<close> is the integer its text denotes.
  \<^item> \<open>CURRENT_TIMESTAMP\<close> has a resolution of one second: a time is a number of
    seconds, and every request arrives some seconds (possibly none) after the previous one.
  \<^item> SQLite's conversion of a bound text to an integer (used by \<open>LIMIT\<close> and
    \<open>OFFSET\<close>) is a parameter of the model, and so is \<open>NODE_ENV\<close>.
  \<^item> A failure of the database engine (disk, corruption) is an input of each request.
  \<^item> ROWIDs are unbounded integers: the 64-bit limit takes \<open>2^63\<close> inserts to reach.
\<close>

subsection \<open>JavaScript values of a request body\<close>

datatype jsval = JUndefined | JNull | JBool bool | JStr string

type_synonym body = "string \<Rightarrow> jsval"

text \<open>The conversion express-validator applies before a standard validator or sanitizer.\<close>

fun toString :: "jsval \<Rightarrow> string" where
  "toString JUndefined = ''''"
| "toString JNull = ''''"
| "toString (JBool b) = (if b then ''true'' else ''false'')"
| "toString (JStr s) = s"

text \<open>The truthiness that \<open>completed ? 1 : 0\<close> and \<open>!!completed\<close> test.\<close>

fun truthy :: "jsval \<Rightarrow> bool" where
  "truthy JUndefined = False"
| "truthy JNull = False"
| "truthy (JBool b) = b"
| "truthy (JStr s) = (s \<noteq> '''')"

subsection \<open>The validator functions used by \<open>validateTask\<close>\<close>

text \<open>
  \<open>trim\<close> removes whitespace from both ends, \<open>isEmpty\<close> tests for length 0 and does
  not ignore whitespace, \<open>isBoolean\<close> accepts the four texts below.
\<close>

definition is_space :: "char \<Rightarrow> bool" where
  "is_space c = (c \<in> set [CHR 0x09, CHR 0x0A, CHR 0x0B, CHR 0x0C, CHR 0x0D, CHR 0x20])"

definition ltrim :: "string \<Rightarrow> string" where
  "ltrim s = dropWhile is_space s"

definition rtrim :: "string \<Rightarrow> string" where
  "rtrim s = rev (dropWhile is_space (rev s))"

definition trim :: "string \<Rightarrow> string" where
  "trim s = rtrim (ltrim s)"

text \<open>
  \<open>escape\<close> replaces \<open>&\<close>, \<open>"\<close>, \<open>'\<close>, \<open><\<close>, \<open>>\<close>, \<open>/\<close>, \<open>\\<close> and the backtick by
  HTML entities.
\<close>

definition escape_char :: "char \<Rightarrow> string" where
  "escape_char c =
     (if c = CHR ''&'' then ''&amp;''
      else if c = CHR 0x22 then ''&quot;''
      else if c = CHR 0x27 then ''&#x27;''
      else if c = CHR ''<'' then ''&lt;''
      else if c = CHR ''>'' then ''&gt;''
      else if c = CHR ''/'' then ''&#x2F;''
      else if c = CHR 0x5C then ''&#x5C;''
      else if c = CHR 0x60 then ''&#96;''
      else [c])"

definition escape :: "string \<Rightarrow> string" where
  "escape s = concat (map escape_char s)"

text \<open>The characters that \<open>escape\<close> replaces and that no entity contains.\<close>

definition markup_chars :: "char set" where
  "markup_chars = {CHR 0x22, CHR 0x27, CHR ''<'', CHR ''>'', CHR ''/'', CHR 0x5C, CHR 0x60}"

definition isEmpty :: "string \<Rightarrow> bool" where
  "isEmpty s = (length s = 0)"

definition isBoolean :: "string \<Rightarrow> bool" where
  "isBoolean s = (s \<in> set [''true'', ''false'', ''1'', ''0''])"

subsection \<open>Validation chains\<close>

text \<open>
  A chain is the list of its validators and sanitizers in the order written
  (\<open>notEmpty().withMessage(m)\<close> is \<open>NotEmpty m\<close>). Each item sees the value the items
  before it left; a failing validator records its message and the chain goes on; a
  sanitizer writes its result back into the body. \<open>Optional\<close> makes the chain skip a
  field that is \<open>undefined\<close>.
\<close>

datatype item = NotEmpty string | IsBoolean string | Trim | Escape | Optional

datatype verr = FieldError string string

fun run_item :: "item \<Rightarrow> string list \<times> jsval \<Rightarrow> string list \<times> jsval" where
  "run_item (NotEmpty m) (es, v) = (if isEmpty (toString v) then es @ [m] else es, v)"
| "run_item (IsBoolean m) (es, v) = (if isBoolean (toString v) then es else es @ [m], v)"
| "run_item Trim (es, v) = (es, JStr (trim (toString v)))"
| "run_item Escape (es, v) = (es, JStr (escape (toString v)))"
| "run_item Optional (es, v) = (es, v)"

definition run_chain :: "item list \<Rightarrow> jsval \<Rightarrow> string list \<times> jsval" where
  "run_chain items v =
     (if Optional \<in> set items \<and> v = JUndefined then ([], v)
      else fold run_item items ([], v))"

fun run_chains :: "(string \<times> item list) list \<Rightarrow> verr list \<times> body \<Rightarrow> verr list \<times> body" where
  "run_chains [] (errs, b) = (errs, b)"
| "run_chains ((field, items) # cs) (errs, b) =
     (case run_chain items (b field) of
        (ms, v) \<Rightarrow> run_chains cs (errs @ map (FieldError field) ms, b(field := v)))"

text \<open>\<open>validateTask\<close>, lines 46 to 50.\<close>

definition validateTask :: "(string \<times> item list) list" where
  "validateTask =
     [(''title'', [NotEmpty ''Title is required'', Trim, Escape]),
      (''description'', [Optional, Trim, Escape]),
      (''completed'', [Optional, IsBoolean ''Completed must be a boolean''])]"

text \<open>The errors \<open>validationResult(req)\<close> finds, and the body the handler then reads.\<close>

definition validationResult :: "body \<Rightarrow> verr list" where
  "validationResult b = fst (run_chains validateTask ([], b))"

definition sanitized :: "body \<Rightarrow> body" where
  "sanitized b = snd (run_chains validateTask ([], b))"

subsection \<open>The table \<open>tasks\<close> and its statements\<close>

record task =
  task_id :: int
  title :: string
  description :: "string option"
  completed :: int
  created_at :: nat
  updated_at :: nat

text \<open>\<open>seq\<close> is the entry of \<open>sqlite_sequence\<close>: the largest ROWID ever assigned.\<close>

record store =
  rows :: "task list"
  seq :: int

definition empty_store :: store where
  "empty_store = \<lparr>rows = [], seq = 0\<rparr>"

datatype db_error = DbError string

fun stack :: "db_error \<Rightarrow> string" where
  "stack (DbError s) = s"

text \<open>
  A value bound to a \<open>?\<close> of \<open>LIMIT\<close> or \<open>OFFSET\<close>: a JavaScript number (the defaults) or
  the text of a query parameter.
\<close>

datatype bound = Num int | Text string

text \<open>How a JavaScript value is bound to a column of TEXT affinity.\<close>

fun bind_text :: "jsval \<Rightarrow> string option" where
  "bind_text (JStr s) = Some s"
| "bind_text (JBool b) = Some (if b then ''1'' else ''0'')"
| "bind_text JNull = None"
| "bind_text JUndefined = None"

definition must_be_int :: "(string \<Rightarrow> int option) \<Rightarrow> bound \<Rightarrow> int option" where
  "must_be_int conv p = (case p of Num n \<Rightarrow> Some n | Text s \<Rightarrow> conv s)"

text \<open>\<open>ORDER BY created_at DESC\<close>; rows of one second keep their ROWID order.\<close>

definition order_by_created_at_desc :: "task list \<Rightarrow> task list" where
  "order_by_created_at_desc rs = sort_key (\<lambda>r. - int (created_at r)) rs"

text \<open>\<open>LIMIT n OFFSET m\<close>: a negative limit is no limit, a negative offset is none.\<close>

definition page :: "int \<Rightarrow> int \<Rightarrow> 'a list \<Rightarrow> 'a list" where
  "page n m xs = (let ys = drop (nat m) xs in if n < 0 then ys else take (nat n) ys)"

text \<open>\<open>AUTOINCREMENT\<close>: one more than the largest ROWID the table has or ever had.\<close>

definition next_rowid :: "store \<Rightarrow> int" where
  "next_rowid s = fold max (map task_id (rows s)) (seq s) + 1"

definition not_null_failed :: db_error where
  "not_null_failed = DbError ''SQLITE_CONSTRAINT: NOT NULL constraint failed: tasks.title''"

definition datatype_mismatch :: db_error where
  "datatype_mismatch = DbError ''SQLITE_MISMATCH: datatype mismatch''"

text \<open>
  The five statements of \<open>server.js\<close>. A statement that writes returns the new table
  and what the callback of \<open>db.run\<close> reads (\<open>this.lastID\<close> of the \<open>INSERT\<close>,
  \<open>this.changes\<close> of the \<open>UPDATE\<close> and the \<open>DELETE\<close>); a statement that reads returns
  the rows.

  \<open>INSERT INTO tasks (title, description, completed) VALUES (?, ?, ?)\<close>
\<close>

definition insert_row :: "nat \<Rightarrow> store \<Rightarrow> string option \<Rightarrow> string option \<Rightarrow> int \<Rightarrow> (db_error + int) \<times> store" where
  "insert_row now s t d c =
     (case t of
        None \<Rightarrow> (Inl not_null_failed, s)
      | Some t' \<Rightarrow>
          (let i = next_rowid s;
               r = \<lparr>task_id = i, title = t', description = d, completed = c,
                    created_at = now, updated_at = now\<rparr>
           in (Inr i, s\<lparr>rows := rows s @ [r], seq := i\<rparr>)))"

text \<open>\<open>SELECT * FROM tasks [WHERE completed = ?] ORDER BY created_at DESC LIMIT ? OFFSET ?\<close>\<close>

definition list_page :: "(string \<Rightarrow> int option) \<Rightarrow> store \<Rightarrow> int option \<Rightarrow> bound \<Rightarrow> bound \<Rightarrow> db_error + task list" where
  "list_page conv s f l off =
     (case must_be_int conv l of
        None \<Rightarrow> Inl datatype_mismatch
      | Some n \<Rightarrow>
          (case must_be_int conv off of
             None \<Rightarrow> Inl datatype_mismatch
           | Some m \<Rightarrow>
               Inr (page n m (order_by_created_at_desc
                 (case f of None \<Rightarrow> rows s
                  | Some c \<Rightarrow> filter (\<lambda>r. completed r = c) (rows s))))))"

text \<open>\<open>SELECT * FROM tasks WHERE id = ?\<close>, read with \<open>db.get\<close>: the first row, if any.\<close>

definition get_by_id :: "store \<Rightarrow> int \<Rightarrow> task option" where
  "get_by_id s i = find (\<lambda>r. task_id r = i) (rows s)"

text \<open>
  \<open>UPDATE tasks SET title = ?, description = ?, completed = ?,
  updated_at = CURRENT_TIMESTAMP WHERE id = ?\<close>
\<close>

definition update_row :: "nat \<Rightarrow> store \<Rightarrow> string option \<Rightarrow> string option \<Rightarrow> int \<Rightarrow> int \<Rightarrow> (db_error + nat) \<times> store" where
  "update_row now s t d c i =
     (let n = length (filter (\<lambda>r. task_id r = i) (rows s)) in
      if n = 0 then (Inr 0, s)
      else (case t of
              None \<Rightarrow> (Inl not_null_failed, s)
            | Some t' \<Rightarrow>
                (Inr n,
                 s\<lparr>rows := map (\<lambda>r. if task_id r = i
                                     then r\<lparr>title := t', description := d, completed := c,
                                            updated_at := now\<rparr>
                                     else r) (rows s)\<rparr>)))"

text \<open>\<open>DELETE FROM tasks WHERE id = ?\<close>\<close>

definition delete_by_id :: "store \<Rightarrow> int \<Rightarrow> nat \<times> store" where
  "delete_by_id s i =
     (length (filter (\<lambda>r. task_id r = i) (rows s)),
      s\<lparr>rows := filter (\<lambda>r. task_id r \<noteq> i) (rows s)\<rparr>)"

text \<open>The record of a call the Store received, with the values bound to it.\<close>

datatype db_call =
    Insert "string option" "string option" int
  | ListPage "int option" bound bound
  | GetById int
  | Update "string option" "string option" int int
  | DeleteById int

subsection \<open>Requests, responses and the environment\<close>

record query =
  q_completed :: "string option"
  q_limit :: "string option"
  q_offset :: "string option"

datatype request =
    GET_root
  | POST_tasks body
  | GET_tasks query
  | GET_task int
  | PUT_task int body
  | DELETE_task int
  | Unrouted

datatype payload =
    Banner string
  | Errors "verr list"
  | Created int jsval jsval bool
  | Tasks (tasks: "task list") (count: nat)
  | Task task
  | Message string
  | Confirm string int
  | Error string
  | Html string

datatype response = Response (status: nat) (payload: payload)

record env =
  sql_integer :: "string \<Rightarrow> int option"
  production :: bool

text \<open>
  A layer sends a response (\<open>Send\<close>), calls \<open>next(err)\<close> (\<open>Next\<close>), or leaves the
  request to the layers after it (\<open>Pass\<close>).
\<close>

datatype outcome = Send response | Next db_error | Pass

text \<open>
  A statement handed to the database: the engine fails and the table stays as it is, or
  SQLite runs the statement.
\<close>

definition engine :: "db_error option \<Rightarrow> store \<Rightarrow> (db_error + 'a) \<times> store \<Rightarrow> (db_error + 'a) \<times> store" where
  "engine fault s result = (case fault of Some err \<Rightarrow> (Inl err, s) | None \<Rightarrow> result)"

subsection \<open>The handlers\<close>

text \<open>
  Each handler returns what it does with the request, the table it leaves, and the Store
  calls it made. The callback of a statement starts with \<open>if (err) return next(err)\<close>.

  \<open>errorHandler\<close>, lines 33 to 36 (the log line is left out).
\<close>

definition errorHandler :: "db_error \<Rightarrow> response" where
  "errorHandler err = Response 500 (Error ''Something went wrong!'')"

text \<open>\<open>app.get('/')\<close>, lines 41 to 43.\<close>

definition get_root :: response where
  "get_root = Response 200 (Banner ''Welcome to the Todo API! Use /tasks for managing tasks.'')"

text \<open>\<open>app.post('/tasks', validateTask, ...)\<close>, lines 55 to 70.\<close>

definition post_tasks :: "env \<Rightarrow> db_error option \<Rightarrow> nat \<Rightarrow> store \<Rightarrow> body \<Rightarrow> outcome \<times> store \<times> db_call list" where
  "post_tasks e fault now s b0 =
     (let errors = validationResult b0; b = sanitized b0 in
      if errors \<noteq> [] then (Send (Response 400 (Errors errors)), s, [])
      else
        (let t = bind_text (b ''title''); d = bind_text (b ''description'');
             c = (if truthy (b ''completed'') then 1 else 0)
         in case engine fault s (insert_row now s t d c) of
              (Inl err, s') \<Rightarrow> (Next err, s', [Insert t d c])
            | (Inr lastID, s') \<Rightarrow>
                (Send (Response 201
                   (Created lastID (b ''title'') (b ''description'') (truthy (b ''completed'')))),
                 s', [Insert t d c])))"

text \<open>\<open>app.get('/tasks', ...)\<close>, lines 73 to 90.\<close>

definition get_tasks :: "env \<Rightarrow> db_error option \<Rightarrow> nat \<Rightarrow> store \<Rightarrow> query \<Rightarrow> outcome \<times> store \<times> db_call list" where
  "get_tasks e fault now s q =
     (let limit = (case q_limit q of None \<Rightarrow> Num 10 | Some l \<Rightarrow> Text l);
          offset = (case q_offset q of None \<Rightarrow> Num 0 | Some off \<Rightarrow> Text off);
          f = (case q_completed q of
                 None \<Rightarrow> None
               | Some c \<Rightarrow> Some (if c = ''true'' then 1 else 0))
      in case engine fault s (list_page (sql_integer e) s f limit offset, s) of
           (Inl err, s') \<Rightarrow> (Next err, s', [ListPage f limit offset])
         | (Inr rs, s') \<Rightarrow>
             (Send (Response 200 (Tasks rs (length rs))), s', [ListPage f limit offset]))"

text \<open>\<open>app.get('/tasks/:id', ...)\<close>, lines 93 to 100.\<close>

definition get_task :: "env \<Rightarrow> db_error option \<Rightarrow> nat \<Rightarrow> store \<Rightarrow> int \<Rightarrow> outcome \<times> store \<times> db_call list" where
  "get_task e fault now s i =
     (case engine fault s (Inr (get_by_id s i), s) of
        (Inl err, s') \<Rightarrow> (Next err, s', [GetById i])
      | (Inr None, s') \<Rightarrow> (Send (Response 404 (Message ''Task not found'')), s', [GetById i])
      | (Inr (Some row), s') \<Rightarrow> (Send (Response 200 (Task row)), s', [GetById i]))"

text \<open>\<open>app.put('/tasks/:id', validateTask, ...)\<close>, lines 103 to 120.\<close>

definition put_task :: "env \<Rightarrow> db_error option \<Rightarrow> nat \<Rightarrow> store \<Rightarrow> int \<Rightarrow> body \<Rightarrow> outcome \<times> store \<times> db_call list" where
  "put_task e fault now s i b0 =
     (let errors = validationResult b0; b = sanitized b0 in
      if errors \<noteq> [] then (Send (Response 400 (Errors errors)), s, [])
      else
        (let t = bind_text (b ''title''); d = bind_text (b ''description'');
             c = (if truthy (b ''completed'') then 1 else 0)
         in case engine fault s (update_row now s t d c i) of
              (Inl err, s') \<Rightarrow> (Next err, s', [Update t d c i])
            | (Inr changes, s') \<Rightarrow>
                (if changes = 0
                 then (Send (Response 404 (Message ''Task not found'')), s', [Update t d c i])
                 else (Send (Response 200 (Confirm ''Task updated'' i)), s', [Update t d c i]))))"

text \<open>\<open>app.delete('/tasks/:id', ...)\<close>, lines 123 to 130.\<close>

definition delete_task :: "env \<Rightarrow> db_error option \<Rightarrow> nat \<Rightarrow> store \<Rightarrow> int \<Rightarrow> outcome \<times> store \<times> db_call list" where
  "delete_task e fault now s i =
     (case engine fault s (case delete_by_id s i of (changes, s') \<Rightarrow> (Inr changes, s')) of
        (Inl err, s') \<Rightarrow> (Next err, s', [DeleteById i])
      | (Inr changes, s') \<Rightarrow>
          (if changes = 0
           then (Send (Response 404 (Message ''Task not found'')), s', [DeleteById i])
           else (Send (Response 200 (Confirm ''Task deleted'' i)), s', [DeleteById i])))"

subsection \<open>The application: layers in the order of registration\<close>

datatype layer =
    Use_json
  | Use_errorHandler
  | Route_root
  | Route_post_tasks
  | Route_get_tasks
  | Route_get_task
  | Route_put_task
  | Route_delete_task

text \<open>
  \<open>app.use(express.json())\<close> (line 8), \<open>app.use(errorHandler)\<close> (line 38), then the
  routes of lines 41, 55, 73, 93, 103 and 123.
\<close>

definition app :: "layer list" where
  "app = [Use_json, Use_errorHandler, Route_root, Route_post_tasks, Route_get_tasks,
          Route_get_task, Route_put_task, Route_delete_task]"

text \<open>
  What a layer that is not an error handler does with a request: a route runs its
  handler on the requests it matches; bodies arrive parsed, so \<open>express.json()\<close> passes.
\<close>

definition handle :: "layer \<Rightarrow> env \<Rightarrow> db_error option \<Rightarrow> nat \<Rightarrow> store \<Rightarrow> request \<Rightarrow> outcome \<times> store \<times> db_call list" where
  "handle l e fault now s r =
     (case (l, r) of
        (Route_root, GET_root) \<Rightarrow> (Send get_root, s, [])
      | (Route_post_tasks, POST_tasks b) \<Rightarrow> post_tasks e fault now s b
      | (Route_get_tasks, GET_tasks q) \<Rightarrow> get_tasks e fault now s q
      | (Route_get_task, GET_task i) \<Rightarrow> get_task e fault now s i
      | (Route_put_task, PUT_task i b) \<Rightarrow> put_task e fault now s i b
      | (Route_delete_task, DELETE_task i) \<Rightarrow> delete_task e fault now s i
      | _ \<Rightarrow> (Pass, s, []))"

text \<open>
  Express's default handler, reached when the stack is exhausted: without a pending
  error it answers 404; with one it answers 500, and the page shows the error's stack
  unless \<open>NODE_ENV\<close> is \<open>production\<close>. The pages are HTML; their text is abbreviated.
\<close>

definition finalhandler :: "env \<Rightarrow> db_error option \<Rightarrow> response" where
  "finalhandler e pending =
     (case pending of
        None \<Rightarrow> Response 404 (Html ''Not Found'')
      | Some err \<Rightarrow>
          Response 500 (Html (if production e then ''Internal Server Error'' else stack err)))"

text \<open>
  Express walks the stack from the layer after the one that called \<open>next\<close>. With a
  pending error only error-handling layers are run; without one they are skipped.
\<close>

fun dispatch :: "layer list \<Rightarrow> db_error option \<Rightarrow> env \<Rightarrow> db_error option \<Rightarrow> nat \<Rightarrow> store \<Rightarrow>
    request \<Rightarrow> db_call list \<Rightarrow> response \<times> store \<times> db_call list" where
  "dispatch [] pending e fault now s r calls = (finalhandler e pending, s, calls)"
| "dispatch (l # ls) (Some err) e fault now s r calls =
     (if l = Use_errorHandler then (errorHandler err, s, calls)
      else dispatch ls (Some err) e fault now s r calls)"
| "dispatch (l # ls) None e fault now s r calls =
     (if l = Use_errorHandler then dispatch ls None e fault now s r calls
      else (case handle l e fault now s r of
              (Send res, s', cs) \<Rightarrow> (res, s', calls @ cs)
            | (Next err, s', cs) \<Rightarrow> dispatch ls (Some err) e fault now s' r (calls @ cs)
            | (Pass, s', cs) \<Rightarrow> dispatch ls None e fault now s' r (calls @ cs)))"

subsection \<open>The running server\<close>

text \<open>
  The server's state is the table and the time of the last request. A request comes
  with the seconds elapsed since then and with the fault, if any, that the engine meets
  while serving it.
\<close>

record world =
  db :: store
  clock :: nat

record event =
  req :: request
  elapsed :: nat
  fault :: "db_error option"

definition boot :: world where
  "boot = \<lparr>db = empty_store, clock = 0\<rparr>"

definition serve :: "env \<Rightarrow> world \<Rightarrow> event \<Rightarrow> response \<times> world \<times> db_call list" where
  "serve e w ev =
     (let now = clock w + elapsed ev in
      case dispatch app None e (fault ev) now (db w) (req ev) [] of
        (res, s', calls) \<Rightarrow> (res, \<lparr>db = s', clock = now\<rparr>, calls))"

definition step :: "env \<Rightarrow> world \<Rightarrow> event \<Rightarrow> world" where
  "step e w ev = fst (snd (serve e w ev))"

definition run :: "env \<Rightarrow> event list \<Rightarrow> world" where
  "run e evs = foldl (step e) boot evs"

subsection \<open>Sample inputs\<close>

text \<open>
  An environment in which a bound text converts to an integer when it is a plain decimal
  numeral with an optional minus sign, and \<open>NODE_ENV\<close> is not \<open>production\<close>.
\<close>

definition digit :: "char \<Rightarrow> nat option" where
  "digit c = (let n = (of_char c :: nat) in if 48 \<le> n \<and> n \<le> 57 then Some (n - 48) else None)"

fun digits :: "string \<Rightarrow> nat \<Rightarrow> nat option" where
  "digits [] acc = Some acc"
| "digits (c # cs) acc = (case digit c of None \<Rightarrow> None | Some k \<Rightarrow> digits cs (10 * acc + k))"

definition decimal :: "string \<Rightarrow> int option" where
  "decimal s =
     (case s of
        [] \<Rightarrow> None
      | c # cs \<Rightarrow>
          if c = CHR ''-'' then (if cs = [] then None else map_option (\<lambda>n. - int n) (digits cs 0))
          else map_option int (digits s 0))"

definition development :: env where
  "development = \<lparr>sql_integer = decimal, production = False\<rparr>"

text \<open>The body \<open>{title, description, completed}\<close>, and a request that meets no fault.\<close>

definition task_body :: "jsval \<Rightarrow> jsval \<Rightarrow> jsval \<Rightarrow> body" where
  "task_body t d c = (\<lambda>_. JUndefined)(''title'' := t, ''description'' := d, ''completed'' := c)"

definition after :: "nat \<Rightarrow> request \<Rightarrow> event" where
  "after d r = \<lparr>req = r, elapsed = d, fault = None\<rparr>"

definition buy_milk :: body where
  "buy_milk = task_body (JStr ''Buy milk'') JUndefined JUndefined"

definition ship_release :: body where
  "ship_release = task_body (JStr ''Ship release'') JUndefined (JBool True)"

definition blank_title :: body where
  "blank_title = task_body (JStr ''   '') JUndefined JUndefined"

definition markup_title :: body where
  "markup_title = task_body (JStr '' <b>Buy milk</b> '') (JStr ''2 l '') (JBool False)"

definition string_false :: body where
  "string_false = task_body (JStr ''Buy milk'') JUndefined (JStr ''false'')"

definition one_task :: world where
  "one_task = run development [after 7 (POST_tasks buy_milk)]"

definition two_tasks :: world where
  "two_tasks = run development [after 7 (POST_tasks buy_milk), after 5 (POST_tasks ship_release)]"

definition eleven_tasks :: world where
  "eleven_tasks = run development (replicate 11 (after 1 (POST_tasks buy_milk)))"

definition disk_error :: db_error where
  "disk_error = DbError ''Error: SQLITE_IOERR: disk I/O error''"

subsection \<open>The invariant of the table\<close>

text \<open>
  ROWIDs are positive, distinct and at most the sequence counter; no row is updated
  before it is created, or after the current time.
\<close>

definition store_ok :: "nat \<Rightarrow> store \<Rightarrow> bool" where
  "store_ok now s \<longleftrightarrow>
     0 \<le> seq s \<and> distinct (map task_id (rows s)) \<and>
     (\<forall>r \<in> set (rows s). 0 < task_id r \<and> task_id r \<le> seq s \<and>
        created_at r \<le> updated_at r \<and> updated_at r \<le> now)"

definition world_ok :: "world \<Rightarrow> bool" where
  "world_ok w = store_ok (clock w) (db w)"

section \<open>Validation\<close>

lemma run_chain_title:
  "run_chain [NotEmpty m, Trim, Escape] v =
     (if toString v = [] then [m] else [], JStr (escape (trim (toString v))))"
  by (simp add: run_chain_def isEmpty_def)

lemma run_chain_description:
  "run_chain [Optional, Trim, Escape] v =
     ([], if v = JUndefined then JUndefined else JStr (escape (trim (toString v))))"
  by (simp add: run_chain_def)

lemma run_chain_completed:
  "run_chain [Optional, IsBoolean m] v =
     (if v = JUndefined \<or> isBoolean (toString v) then [] else [m], v)"
  by (simp add: run_chain_def)

lemma validationResult_eq:
  "validationResult b =
     (if toString (b ''title'') = [] then [FieldError ''title'' ''Title is required''] else []) @
     (if b ''completed'' = JUndefined \<or> isBoolean (toString (b ''completed'')) then []
      else [FieldError ''completed'' ''Completed must be a boolean''])"
  by (simp add: validationResult_def validateTask_def run_chain_title run_chain_description
      run_chain_completed)

lemma sanitized_title:
  "sanitized b ''title'' = JStr (escape (trim (toString (b ''title''))))"
  by (simp add: sanitized_def validateTask_def run_chain_title run_chain_description
      run_chain_completed)

lemma sanitized_description:
  "sanitized b ''description'' =
     (if b ''description'' = JUndefined then JUndefined
      else JStr (escape (trim (toString (b ''description'')))))"
  by (simp add: sanitized_def validateTask_def run_chain_title run_chain_description
      run_chain_completed)

lemma sanitized_completed: "sanitized b ''completed'' = b ''completed''"
  by (simp add: sanitized_def validateTask_def run_chain_title run_chain_description
      run_chain_completed)

section \<open>Routing\<close>

text \<open>
  No error-handling layer follows a route in \<open>app\<close>, so a request ends with the response
  its route sends, or at Express's default handler.
\<close>

lemma dispatch_app:
  "dispatch app None e f now s r [] =
     (case r of
        GET_root \<Rightarrow> (get_root, s, [])
      | Unrouted \<Rightarrow> (finalhandler e None, s, [])
      | _ \<Rightarrow>
       (case (case r of POST_tasks b \<Rightarrow> post_tasks e f now s b
                 | GET_tasks q \<Rightarrow> get_tasks e f now s q
                 | GET_task i \<Rightarrow> get_task e f now s i
                 | PUT_task i b \<Rightarrow> put_task e f now s i b
                 | DELETE_task i \<Rightarrow> delete_task e f now s i) of
          (Send res, s', cs) \<Rightarrow> (res, s', cs)
        | (Next err, s', cs) \<Rightarrow> (finalhandler e (Some err), s', cs)
        | (Pass, s', cs) \<Rightarrow> (finalhandler e None, s', cs)))"
  by (cases r) (simp_all add: app_def handle_def split: prod.splits outcome.splits)

lemma step_eq:
  "step e w ev =
     \<lparr>db = fst (snd (dispatch app None e (fault ev) (clock w + elapsed ev) (db w) (req ev) [])),
      clock = clock w + elapsed ev\<rparr>"
  by (simp add: step_def serve_def Let_def split: prod.splits)

lemma serve_eq:
  "serve e w ev =
     (fst (dispatch app None e (fault ev) (clock w + elapsed ev) (db w) (req ev) []),
      step e w ev,
      snd (snd (dispatch app None e (fault ev) (clock w + elapsed ev) (db w) (req ev) [])))"
  by (simp add: step_def serve_def Let_def split: prod.splits)

section \<open>The handlers when the engine does not fail\<close>

lemma post_tasks_valid:
  assumes "validationResult b = []"
  shows "post_tasks e None now s b =
     (Send (Response 201 (Created (next_rowid s) (sanitized b ''title'')
        (sanitized b ''description'') (truthy (b ''completed'')))),
      s\<lparr>rows := rows s @
           [\<lparr>task_id = next_rowid s, title = escape (trim (toString (b ''title''))),
             description = bind_text (sanitized b ''description''),
             completed = (if truthy (b ''completed'') then 1 else 0),
             created_at = now, updated_at = now\<rparr>],
        seq := next_rowid s\<rparr>,
      [Insert (Some (escape (trim (toString (b ''title'')))))
         (bind_text (sanitized b ''description''))
         (if truthy (b ''completed'') then 1 else 0)])"
  using assms
  by (simp add: post_tasks_def engine_def insert_row_def sanitized_title sanitized_completed Let_def)

lemma put_task_valid:
  assumes "validationResult b = []"
  shows "put_task e None now s i b =
     (if filter (\<lambda>r. task_id r = i) (rows s) = []
      then (Send (Response 404 (Message ''Task not found'')), s,
            [Update (Some (escape (trim (toString (b ''title'')))))
               (bind_text (sanitized b ''description''))
               (if truthy (b ''completed'') then 1 else 0) i])
      else (Send (Response 200 (Confirm ''Task updated'' i)),
            s\<lparr>rows := map (\<lambda>r. if task_id r = i
                   then r\<lparr>title := escape (trim (toString (b ''title''))),
                          description := bind_text (sanitized b ''description''),
                          completed := (if truthy (b ''completed'') then 1 else 0),
                          updated_at := now\<rparr>
                   else r) (rows s)\<rparr>,
            [Update (Some (escape (trim (toString (b ''title'')))))
               (bind_text (sanitized b ''description''))
               (if truthy (b ''completed'') then 1 else 0) i]))"
  using assms
  by (simp add: put_task_def engine_def update_row_def sanitized_title sanitized_completed Let_def)

lemma delete_task_ok:
  "delete_task e None now s i =
     (Send (if filter (\<lambda>r. task_id r = i) (rows s) = []
            then Response 404 (Message ''Task not found'')
            else Response 200 (Confirm ''Task deleted'' i)),
      s\<lparr>rows := filter (\<lambda>r. task_id r \<noteq> i) (rows s)\<rparr>, [DeleteById i])"
  by (simp add: delete_task_def engine_def delete_by_id_def Let_def)

lemma get_task_ok:
  "get_task e None now s i =
     (Send (case find (\<lambda>r. task_id r = i) (rows s) of
              None \<Rightarrow> Response 404 (Message ''Task not found'')
            | Some row \<Rightarrow> Response 200 (Task row)),
      s, [GetById i])"
  by (simp add: get_task_def engine_def get_by_id_def split: option.splits)


lemma find_map_same:
  "(\<And>r. P (f r) = P r) \<Longrightarrow> find P (map f rs) = map_option f (find P rs)"
  by (induction rs) auto

lemma find_filter_out: "find P (filter (\<lambda>r. \<not> P r) rs) = None"
  by (induction rs) auto

lemma filter_none_iff: "filter P rs = [] \<longleftrightarrow> find P rs = None"
  by (induction rs) auto

section \<open>ROWIDs and timestamps in every reachable table\<close>

lemma fold_max_ge: "(a::int) \<le> fold max xs a"
proof (induction xs arbitrary: a)
  case Nil
  show ?case by simp
next
  case (Cons x xs)
  have "a \<le> max x a" by simp
  also have "\<dots> \<le> fold max xs (max x a)" by (rule Cons.IH)
  finally show ?case by simp
qed

lemma fold_max_mem: "x \<in> set xs \<Longrightarrow> (x::int) \<le> fold max xs a"
proof (induction xs arbitrary: a)
  case Nil
  then show ?case by simp
next
  case (Cons y ys)
  show ?case
  proof (cases "x = y")
    case True
    have "x \<le> max y a" using True by simp
    also have "\<dots> \<le> fold max ys (max y a)" by (rule fold_max_ge)
    finally show ?thesis by simp
  next
    case False
    with Cons.prems have "x \<in> set ys" by simp
    then show ?thesis using Cons.IH by simp
  qed
qed

lemma next_rowid_gt_seq: "seq s < next_rowid s"
  using fold_max_ge [of "seq s" "map task_id (rows s)"] by (simp add: next_rowid_def)

lemma next_rowid_gt_rows: "r \<in> set (rows s) \<Longrightarrow> task_id r < next_rowid s"
  using fold_max_mem [of "task_id r" "map task_id (rows s)" "seq s"]
  by (simp add: next_rowid_def)

lemma store_ok_mono: "store_ok t s \<Longrightarrow> t \<le> now \<Longrightarrow> store_ok now s"
  by (fastforce simp: store_ok_def)

lemma task_id_update:
  "(task_id \<circ> (\<lambda>r. if task_id r = i
        then r\<lparr>title := t, description := d, completed := c, updated_at := n\<rparr> else r)) = task_id"
  by (auto simp: fun_eq_iff)

lemma insert_row_ok:
  assumes "store_ok now s"
  shows "store_ok now (snd (insert_row now s t d c))"
proof (cases t)
  case None
  with assms show ?thesis by (simp add: insert_row_def)
next
  case (Some t')
  have "seq s < next_rowid s" by (rule next_rowid_gt_seq)
  moreover have "\<forall>r \<in> set (rows s). task_id r < next_rowid s"
    using next_rowid_gt_rows by blast
  ultimately show ?thesis
    using assms Some by (fastforce simp: store_ok_def insert_row_def Let_def)
qed

lemma update_row_ok: "store_ok now s \<Longrightarrow> store_ok now (snd (update_row now s t d c i))"
  by (auto simp: store_ok_def update_row_def Let_def task_id_update split: option.splits)

lemma delete_by_id_ok: "store_ok now s \<Longrightarrow> store_ok now (snd (delete_by_id s i))"
  by (auto simp: store_ok_def delete_by_id_def distinct_map_filter)

lemma post_tasks_store:
  "fst (snd (post_tasks e f now s b)) =
     (if validationResult b = [] \<and> f = None
      then snd (insert_row now s (bind_text (sanitized b ''title''))
             (bind_text (sanitized b ''description''))
             (if truthy (sanitized b ''completed'') then 1 else 0))
      else s)"
proof (cases f)
  case None
  then show ?thesis
    by (cases "insert_row now s (bind_text (sanitized b ''title''))
             (bind_text (sanitized b ''description''))
             (if truthy (sanitized b ''completed'') then 1 else 0)")
       (simp add: post_tasks_def engine_def Let_def split: sum.splits)
next
  case (Some err)
  then show ?thesis by (simp add: post_tasks_def engine_def Let_def)
qed

lemma put_task_store:
  "fst (snd (put_task e f now s i b)) =
     (if validationResult b = [] \<and> f = None
      then snd (update_row now s (bind_text (sanitized b ''title''))
             (bind_text (sanitized b ''description''))
             (if truthy (sanitized b ''completed'') then 1 else 0) i)
      else s)"
proof (cases f)
  case None
  then show ?thesis
    by (cases "update_row now s (bind_text (sanitized b ''title''))
             (bind_text (sanitized b ''description''))
             (if truthy (sanitized b ''completed'') then 1 else 0) i")
       (simp add: put_task_def engine_def Let_def split: sum.splits)
next
  case (Some err)
  then show ?thesis by (simp add: put_task_def engine_def Let_def)
qed

lemma delete_task_store:
  "fst (snd (delete_task e f now s i)) = (if f = None then snd (delete_by_id s i) else s)"
  by (cases f; cases "delete_by_id s i") (simp_all add: delete_task_def engine_def)

lemma get_task_store: "fst (snd (get_task e f now s i)) = s"
  by (cases f; cases "get_by_id s i") (simp_all add: get_task_def engine_def)

lemma get_tasks_store: "fst (snd (get_tasks e f now s q)) = s"
  by (cases f) (simp_all add: get_tasks_def engine_def Let_def split: sum.splits)

lemma outcome_store:
  "fst (snd (case x of
       (Send res, s', cs) \<Rightarrow> (res, s', cs)
     | (Next err, s', cs) \<Rightarrow> (F err, s', cs)
     | (Pass, s', cs) \<Rightarrow> (G, s', cs))) = fst (snd x)"
  by (simp split: prod.splits outcome.splits)

lemma dispatch_store:
  "fst (snd (dispatch app None e f now s r [])) =
     (case r of
        POST_tasks b \<Rightarrow> fst (snd (post_tasks e f now s b))
      | PUT_task i b \<Rightarrow> fst (snd (put_task e f now s i b))
      | DELETE_task i \<Rightarrow> fst (snd (delete_task e f now s i))
      | _ \<Rightarrow> s)"
  by (cases r)
     (simp_all only: dispatch_app request.case outcome_store get_task_store get_tasks_store
        fst_conv snd_conv)

lemma dispatch_store_ok:
  assumes "store_ok now s"
  shows "store_ok now (fst (snd (dispatch app None e f now s r [])))"
  using assms
  by (cases r)
     (simp_all add: dispatch_store post_tasks_store put_task_store delete_task_store
        insert_row_ok update_row_ok delete_by_id_ok)

lemma world_ok_step:
  assumes "world_ok w"
  shows "world_ok (step e w ev)"
proof -
  let ?now = "clock w + elapsed ev"
  have "store_ok ?now (db w)"
    using assms by (auto simp: world_ok_def intro: store_ok_mono)
  then have "store_ok ?now (fst (snd (dispatch app None e (fault ev) ?now (db w) (req ev) [])))"
    by (rule dispatch_store_ok)
  then show ?thesis by (simp add: step_eq world_ok_def)
qed

lemma world_ok_foldl: "world_ok w \<Longrightarrow> world_ok (foldl (step e) w evs)"
  by (induction evs arbitrary: w) (simp_all add: world_ok_step)

lemma world_ok_run: "world_ok (run e evs)"
  unfolding run_def
  by (rule world_ok_foldl) (simp add: world_ok_def boot_def store_ok_def empty_store_def)

section \<open>Create, then read\<close>




section \<open>Titles that are missing, empty or blank\<close>

text \<open>
  A title that is missing, \<open>null\<close> or the empty string fails \<open>notEmpty\<close>: the handler
  answers 400 with the list of field errors, makes no Store call and leaves the table as
  it was, whatever the engine would have done.
\<close>

lemma empty_title_is_rejected:
  assumes "toString (b ''title'') = []"
  shows "serve e w \<lparr>req = POST_tasks b, elapsed = d, fault = f\<rparr> =
           (Response 400 (Errors (validationResult b)), \<lparr>db = db w, clock = clock w + d\<rparr>, [])"
    and "serve e w \<lparr>req = PUT_task i b, elapsed = d, fault = f\<rparr> =
           (Response 400 (Errors (validationResult b)), \<lparr>db = db w, clock = clock w + d\<rparr>, [])"
    and "FieldError ''title'' ''Title is required'' \<in> set (validationResult b)"
  using assms
  by (simp_all add: serve_eq step_eq dispatch_app post_tasks_def put_task_def Let_def
      validationResult_eq)

text \<open>
  C2. The specification asks for 400, no Store call and an unchanged row count also when the
  title is blank (whitespace only). The chain runs \<open>notEmpty\<close> before \<open>trim\<close>, so a title of
  three spaces passes validation: \<open>POST /tasks\<close> answers 201, the Store receives an
  \<open>INSERT\<close> whose title is the empty string, and the table grows by one row;
  \<open>PUT /tasks/1\<close> with the same body answers 200 after an \<open>UPDATE\<close>.
\<close>

theorem blank_title_is_accepted:
  "validationResult blank_title = [] \<and>
   serve development boot (after 0 (POST_tasks blank_title)) =
     (Response 201 (Created 1 (JStr []) JUndefined False),
      \<lparr>db = \<lparr>rows = [\<lparr>task_id = 1, title = [], description = None, completed = 0,
                       created_at = 0, updated_at = 0\<rparr>], seq = 1\<rparr>, clock = 0\<rparr>,
      [Insert (Some []) None 0]) \<and>
   length (rows (db boot)) = 0 \<and>
   fst (serve development one_task (after 1 (PUT_task 1 blank_title))) =
     Response 200 (Confirm ''Task updated'' 1) \<and>
   snd (snd (serve development one_task (after 1 (PUT_task 1 blank_title)))) =
     [Update (Some []) None 0 1]"
  by code_simp

section \<open>What holds of every persisted row\<close>

text \<open>
  Of the three properties the data model lists, two hold after every history of
  requests: a ROWID is positive, is carried by one row only and never exceeds the
  sequence counter, which never decreases and which every new ROWID exceeds; and a row
  is never updated before it was created.
\<close>

lemma rowids_of_reachable_table:
  "distinct (map task_id (rows (db (run e evs))))"
  "r \<in> set (rows (db (run e evs))) \<Longrightarrow> 0 < task_id r \<and> task_id r \<le> seq (db (run e evs))"
  using world_ok_run [of e evs] by (auto simp: world_ok_def store_ok_def)

lemma timestamps_of_reachable_table:
  "r \<in> set (rows (db (run e evs))) \<Longrightarrow>
     created_at r \<le> updated_at r \<and> updated_at r \<le> clock (run e evs)"
  using world_ok_run [of e evs] by (auto simp: world_ok_def store_ok_def)

lemma seq_mono:
  "seq s \<le> seq (snd (insert_row now s t d c))"
  "seq s = seq (snd (update_row now s t d c i))"
  "seq s = seq (snd (delete_by_id s i))"
  using next_rowid_gt_seq [of s]
  by (simp_all add: insert_row_def update_row_def delete_by_id_def Let_def split: option.splits)

lemma step_seq_mono: "seq (db w) \<le> seq (db (step e w ev))"
  using seq_mono [of "db w"]
  by (cases "req ev")
     (simp_all add: step_eq dispatch_store post_tasks_store put_task_store delete_task_store)

lemma update_keeps_rowids:
  "map task_id (rows (snd (update_row now s t d c i))) = map task_id (rows s)"
  by (simp add: update_row_def Let_def task_id_update split: option.splits)

text \<open>
  C3. The middle property fails: a row with an empty title is persisted. A task is
  created with a proper title, and \<open>PUT /tasks/1\<close> with a title of a tab and a space
  replaces it by the empty string; \<open>POST /tasks\<close> with a blank title inserts such a row
  directly.
\<close>

theorem empty_title_is_persisted:
  "map title (rows (db (run development
      [after 7 (POST_tasks buy_milk),
       after 1 (PUT_task 1 (task_body (JStr [CHR 0x09, CHR 0x20]) JUndefined JUndefined))]))) =
     [[]] \<and>
   map title (rows (db (run development [after 7 (POST_tasks blank_title)]))) = [[]]"
  by code_simp

section \<open>Update, then read\<close>

text \<open>
  C4, as stated, asks that after a \<open>PUT\<close> the row's \<open>updated_at\<close> is strictly after its
  \<open>created_at\<close>. A task updated within the second of its creation has both equal.
\<close>

theorem same_second_update_counterexample:
  "fst (serve development
     (run development
        [after 7 (POST_tasks buy_milk),
         after 0 (PUT_task 1 (task_body (JStr ''Buy oat milk'') (JStr ''2 l'') (JBool True)))])
     (after 0 (GET_task 1))) =
   Response 200 (Task \<lparr>task_id = 1, title = ''Buy oat milk'', description = Some ''2 l'',
     completed = 1, created_at = 7, updated_at = 7\<rparr>) \<and>
   \<not> created_at \<lparr>task_id = 1, title = ''Buy oat milk'', description = Some ''2 l'',
     completed = 1, created_at = 7, updated_at = 7\<rparr>
     < updated_at \<lparr>task_id = 1, title = ''Buy oat milk'', description = Some ''2 l'',
     completed = 1, created_at = 7, updated_at = 7\<rparr>"
  by code_simp

text \<open>
  C4, amended. For every task id that has a row after some history of requests, and
  every body that passes validation, \<open>PUT /tasks/:id\<close> answers 200 and
  \<open>GET /tasks/:id\<close> then returns the old row with its title, description and completion
  flag replaced by the values validation left and with \<open>updated_at\<close> set to the time of
  the update; the id and \<open>created_at\<close> are those of the old row, and \<open>created_at\<close> is at
  or before the time of the update (strictly before once a second has passed).
\<close>

theorem put_then_get_by_id:
  assumes "validationResult b = []"
      and "get_by_id (db (run e evs)) i = Some old"
  shows "fst (serve e (run e evs) \<lparr>req = PUT_task i b, elapsed = d, fault = None\<rparr>) =
           Response 200 (Confirm ''Task updated'' i) \<and>
         fst (serve e (step e (run e evs) \<lparr>req = PUT_task i b, elapsed = d, fault = None\<rparr>)
               \<lparr>req = GET_task i, elapsed = d', fault = None\<rparr>) =
           Response 200 (Task (old\<lparr>title := escape (trim (toString (b ''title''))),
             description := bind_text (sanitized b ''description''),
             completed := (if truthy (b ''completed'') then 1 else 0),
             updated_at := clock (run e evs) + d\<rparr>)) \<and>
         task_id old = i \<and> created_at old \<le> clock (run e evs) + d"
proof -
  let ?w = "run e evs"
  let ?f = "\<lambda>r. if task_id r = i
                   then r\<lparr>title := escape (trim (toString (b ''title''))),
                          description := bind_text (sanitized b ''description''),
                          completed := (if truthy (b ''completed'') then 1 else 0),
                          updated_at := clock ?w + d\<rparr>
                   else r"
  from assms(2) have row: "find (\<lambda>r. task_id r = i) (rows (db ?w)) = Some old"
    by (simp add: get_by_id_def)
  then have mem: "old \<in> set (rows (db ?w))" and id: "task_id old = i"
    by (auto simp: find_Some_iff)
  have "world_ok ?w" by (rule world_ok_run)
  with mem have "created_at old \<le> clock ?w"
    by (fastforce simp: world_ok_def store_ok_def)
  then have le: "created_at old \<le> clock ?w + d" by simp
  have ex: "filter (\<lambda>r. task_id r = i) (rows (db ?w)) \<noteq> []"
    using row by (simp add: filter_none_iff)
  have "find (\<lambda>r. task_id r = i) (map ?f (rows (db ?w))) = map_option ?f (Some old)"
    unfolding row [symmetric] by (rule find_map_same) simp
  then have found: "find (\<lambda>r. task_id r = i) (map ?f (rows (db ?w))) = Some (?f old)"
    by simp
  have put: "fst (serve e ?w \<lparr>req = PUT_task i b, elapsed = d, fault = None\<rparr>) =
           Response 200 (Confirm ''Task updated'' i)"
    using ex by (simp add: serve_eq dispatch_app put_task_valid [OF assms(1)])
  have get: "fst (serve e (step e ?w \<lparr>req = PUT_task i b, elapsed = d, fault = None\<rparr>)
               \<lparr>req = GET_task i, elapsed = d', fault = None\<rparr>) = Response 200 (Task (?f old))"
    using ex found
    by (simp add: serve_eq step_eq dispatch_app put_task_valid [OF assms(1)] get_task_ok)
  show ?thesis using put get id le by simp
qed

theorem put_then_get_by_id_witness:
  "validationResult ship_release = [] \<and>
   get_by_id (db (run development [after 7 (POST_tasks buy_milk)])) 1 =
     Some \<lparr>task_id = 1, title = ''Buy milk'', description = None, completed = 0,
            created_at = 7, updated_at = 7\<rparr> \<and>
   fst (serve development (run development [after 7 (POST_tasks buy_milk)])
          \<lparr>req = PUT_task 1 ship_release, elapsed = 60, fault = None\<rparr>) =
     Response 200 (Confirm ''Task updated'' 1) \<and>
   fst (serve development
          (step development (run development [after 7 (POST_tasks buy_milk)])
             \<lparr>req = PUT_task 1 ship_release, elapsed = 60, fault = None\<rparr>)
          \<lparr>req = GET_task 1, elapsed = 0, fault = None\<rparr>) =
     Response 200 (Task \<lparr>task_id = 1, title = ''Ship release'', description = None,
       completed = 1, created_at = 7, updated_at = 67\<rparr>)"
proof -
  have valid: "validationResult ship_release = []"
    by code_simp
  have row: "get_by_id (db (run development [after 7 (POST_tasks buy_milk)])) 1 =
     Some \<lparr>task_id = 1, title = ''Buy milk'', description = None, completed = 0,
            created_at = 7, updated_at = 7\<rparr>"
    by code_simp
  have title: "escape (trim (toString (ship_release ''title''))) = ''Ship release''"
    by code_simp
  have description: "bind_text (sanitized ship_release ''description'') = None"
    by code_simp
  have completed: "truthy (ship_release ''completed'')"
    by code_simp
  have clock: "clock (run development [after 7 (POST_tasks buy_milk)]) = 7"
    by code_simp
  from put_then_get_by_id [OF valid row, of 60 0] valid row
  show ?thesis by (simp add: title description completed clock)
qed

section \<open>Ids that have no row\<close>

text \<open>
  C5. For every id that has no row, \<open>PUT /tasks/:id\<close> with a body that passes validation
  and \<open>DELETE /tasks/:id\<close> each answer 404 and leave the table as it was. After a
  \<open>DELETE\<close> that answered 200, a second and a third \<open>DELETE\<close> of the same id each answer
  404 (a response of the handler, not an error), and so does \<open>GET /tasks/:id\<close>.
\<close>

theorem absent_id_is_not_found:
  "(i \<notin> set (map task_id (rows (db w))) \<and> validationResult b = [] \<longrightarrow>
      fst (serve e w \<lparr>req = PUT_task i b, elapsed = d, fault = None\<rparr>) =
        Response 404 (Message ''Task not found'') \<and>
      db (step e w \<lparr>req = PUT_task i b, elapsed = d, fault = None\<rparr>) = db w \<and>
      fst (serve e w \<lparr>req = DELETE_task i, elapsed = d, fault = None\<rparr>) =
        Response 404 (Message ''Task not found'') \<and>
      db (step e w \<lparr>req = DELETE_task i, elapsed = d, fault = None\<rparr>) = db w) \<and>
   (fst (serve e w \<lparr>req = DELETE_task i, elapsed = d, fault = None\<rparr>) =
        Response 200 (Confirm ''Task deleted'' i) \<longrightarrow>
      fst (serve e (step e w \<lparr>req = DELETE_task i, elapsed = d, fault = None\<rparr>)
            \<lparr>req = DELETE_task i, elapsed = d1, fault = None\<rparr>) =
        Response 404 (Message ''Task not found'') \<and>
      fst (serve e (step e (step e w \<lparr>req = DELETE_task i, elapsed = d, fault = None\<rparr>)
                      \<lparr>req = DELETE_task i, elapsed = d1, fault = None\<rparr>)
            \<lparr>req = DELETE_task i, elapsed = d2, fault = None\<rparr>) =
        Response 404 (Message ''Task not found'') \<and>
      fst (serve e (step e w \<lparr>req = DELETE_task i, elapsed = d, fault = None\<rparr>)
            \<lparr>req = GET_task i, elapsed = d3, fault = None\<rparr>) =
        Response 404 (Message ''Task not found''))"
proof -
  have absent: "filter (\<lambda>r. task_id r = i) rs = [] \<and> filter (\<lambda>r. task_id r \<noteq> i) rs = rs"
    if "i \<notin> set (map task_id rs)" for rs :: "task list"
    using that by (induction rs) auto
  have gone: "filter (\<lambda>r. task_id r = i) (filter (\<lambda>r. task_id r \<noteq> i) rs) = []"
    for rs :: "task list"
    by (induction rs) auto
  have gone': "find (\<lambda>r. task_id r = i) (filter (\<lambda>r. task_id r \<noteq> i) rs) = None"
    for rs :: "task list"
    by (induction rs) auto
  show ?thesis
    by (auto simp: serve_eq step_eq dispatch_app put_task_valid delete_task_ok get_task_ok
        absent gone gone')
qed

theorem absent_id_is_not_found_witness:
  "2 \<notin> set (map task_id (rows (db one_task))) \<and> validationResult ship_release = [] \<and>
   fst (serve development one_task \<lparr>req = PUT_task 2 ship_release, elapsed = 3, fault = None\<rparr>) =
     Response 404 (Message ''Task not found'') \<and>
   db (step development one_task \<lparr>req = PUT_task 2 ship_release, elapsed = 3, fault = None\<rparr>) =
     db one_task \<and>
   fst (serve development one_task \<lparr>req = DELETE_task 2, elapsed = 3, fault = None\<rparr>) =
     Response 404 (Message ''Task not found'') \<and>
   db (step development one_task \<lparr>req = DELETE_task 2, elapsed = 3, fault = None\<rparr>) =
     db one_task \<and>
   fst (serve development one_task \<lparr>req = DELETE_task 1, elapsed = 3, fault = None\<rparr>) =
     Response 200 (Confirm ''Task deleted'' 1) \<and>
   fst (serve development
          (step development one_task \<lparr>req = DELETE_task 1, elapsed = 3, fault = None\<rparr>)
          \<lparr>req = DELETE_task 1, elapsed = 0, fault = None\<rparr>) =
     Response 404 (Message ''Task not found'') \<and>
   fst (serve development
          (step development
             (step development one_task \<lparr>req = DELETE_task 1, elapsed = 3, fault = None\<rparr>)
             \<lparr>req = DELETE_task 1, elapsed = 0, fault = None\<rparr>)
          \<lparr>req = DELETE_task 1, elapsed = 2, fault = None\<rparr>) =
     Response 404 (Message ''Task not found'') \<and>
   fst (serve development
          (step development one_task \<lparr>req = DELETE_task 1, elapsed = 3, fault = None\<rparr>)
          \<lparr>req = GET_task 1, elapsed = 1, fault = None\<rparr>) =
     Response 404 (Message ''Task not found'')"
proof -
  have absent: "2 \<notin> set (map task_id (rows (db one_task)))"
    by code_simp
  have valid: "validationResult ship_release = []"
    by code_simp
  have deleted: "fst (serve development one_task
      \<lparr>req = DELETE_task 1, elapsed = 3, fault = None\<rparr>) = Response 200 (Confirm ''Task deleted'' 1)"
    by code_simp
  from absent_id_is_not_found [of 2 one_task ship_release development 3] absent valid
  have first: "fst (serve development one_task
        \<lparr>req = PUT_task 2 ship_release, elapsed = 3, fault = None\<rparr>) =
        Response 404 (Message ''Task not found'') \<and>
      db (step development one_task
        \<lparr>req = PUT_task 2 ship_release, elapsed = 3, fault = None\<rparr>) = db one_task \<and>
      fst (serve development one_task \<lparr>req = DELETE_task 2, elapsed = 3, fault = None\<rparr>) =
        Response 404 (Message ''Task not found'') \<and>
      db (step development one_task \<lparr>req = DELETE_task 2, elapsed = 3, fault = None\<rparr>) =
        db one_task"
    by blast
  from absent_id_is_not_found [of 1 one_task ship_release development 3 0 2 1] deleted
  have second: "fst (serve development
          (step development one_task \<lparr>req = DELETE_task 1, elapsed = 3, fault = None\<rparr>)
          \<lparr>req = DELETE_task 1, elapsed = 0, fault = None\<rparr>) =
        Response 404 (Message ''Task not found'') \<and>
      fst (serve development
          (step development
             (step development one_task \<lparr>req = DELETE_task 1, elapsed = 3, fault = None\<rparr>)
             \<lparr>req = DELETE_task 1, elapsed = 0, fault = None\<rparr>)
          \<lparr>req = DELETE_task 1, elapsed = 2, fault = None\<rparr>) =
        Response 404 (Message ''Task not found'') \<and>
      fst (serve development
          (step development one_task \<lparr>req = DELETE_task 1, elapsed = 3, fault = None\<rparr>)
          \<lparr>req = GET_task 1, elapsed = 1, fault = None\<rparr>) =
        Response 404 (Message ''Task not found'')"
    by blast
  from absent valid first deleted second show ?thesis
    by (intro conjI) (erule conjE | assumption)+
qed

section \<open>Listing tasks\<close>

lemma get_tasks_ok:
  assumes "(case q_limit q of None \<Rightarrow> Some 10 | Some l \<Rightarrow> sql_integer e l) = Some n"
      and "(case q_offset q of None \<Rightarrow> Some 0 | Some off \<Rightarrow> sql_integer e off) = Some m"
  shows "get_tasks e None now s q =
     (let rs = page n m (order_by_created_at_desc
                 (case q_completed q of
                    None \<Rightarrow> rows s
                  | Some c \<Rightarrow> filter (\<lambda>r. completed r = (if c = ''true'' then 1 else 0)) (rows s)))
      in (Send (Response 200 (Tasks rs (length rs))), s,
          [ListPage
             (case q_completed q of None \<Rightarrow> None
              | Some c \<Rightarrow> Some (if c = ''true'' then 1 else 0))
             (case q_limit q of None \<Rightarrow> Num 10 | Some l \<Rightarrow> Text l)
             (case q_offset q of None \<Rightarrow> Num 0 | Some off \<Rightarrow> Text off)]))"
  using assms
  by (simp add: get_tasks_def engine_def list_page_def must_be_int_def Let_def split: option.splits)

lemma sorted_order_by_created_at_desc:
  "sorted_wrt (\<lambda>a b. created_at b \<le> created_at a) (order_by_created_at_desc rs)"
proof -
  have "sorted (map (\<lambda>r. - int (created_at r)) (order_by_created_at_desc rs))"
    unfolding order_by_created_at_desc_def by (rule sorted_sort_key)
  then show ?thesis by (simp add: sorted_map)
qed

lemma set_order_by_created_at_desc: "set (order_by_created_at_desc rs) = set rs"
  by (simp add: order_by_created_at_desc_def)

lemma length_order_by_created_at_desc: "length (order_by_created_at_desc rs) = length rs"
  by (simp add: order_by_created_at_desc_def)

lemma sorted_page: "sorted_wrt R xs \<Longrightarrow> sorted_wrt R (page n m xs)"
  by (simp add: page_def Let_def sorted_wrt_take sorted_wrt_drop)

lemma set_page: "set (page n m xs) \<subseteq> set xs"
  by (auto simp: page_def Let_def dest: in_set_takeD in_set_dropD)

lemma length_page: "0 \<le> n \<Longrightarrow> length (page n m xs) \<le> nat n"
  by (simp add: page_def Let_def)

lemma page_all: "m \<le> 0 \<Longrightarrow> n < 0 \<or> int (length xs) \<le> n \<Longrightarrow> page n m xs = xs"
  by (auto simp: page_def Let_def)

text \<open>
  C6, as stated, says that without the \<open>completed\<close> parameter all tasks are returned.
  With eleven tasks in the table and no query parameter at all, the default limit of 10
  applies and the oldest task is left out.
\<close>

theorem default_page_counterexample:
  "map task_id (rows (db eleven_tasks)) = [1, 2, 3, 4, 5, 6, 7, 8, 9, 10, 11] \<and>
   status (fst (serve development eleven_tasks
      (after 1 (GET_tasks \<lparr>q_completed = None, q_limit = None, q_offset = None\<rparr>)))) = 200 \<and>
   map task_id (tasks (payload (fst (serve development eleven_tasks
      (after 1 (GET_tasks \<lparr>q_completed = None, q_limit = None, q_offset = None\<rparr>)))))) =
     [11, 10, 9, 8, 7, 6, 5, 4, 3, 2]"
  by code_simp

text \<open>
  C6, amended. For every \<open>GET /tasks\<close> request whose limit and offset SQLite reads as
  the integers \<open>n\<close> and \<open>m\<close> (10 and 0 when absent): a \<open>completed\<close> parameter stands for
  1 exactly when its text is \<open>true\<close> and for 0 otherwise, and only rows with that flag are
  selected; without the parameter every row is selected; the selected rows are ordered
  newest first by \<open>created_at\<close>, and the response is the page of that sequence that
  \<open>n\<close> and \<open>m\<close> cut out, with its length as \<open>count\<close>. The page holds at most \<open>n\<close> rows when
  \<open>n\<close> is not negative, and it holds all tasks when there is no filter, no offset and the
  limit is negative or at least the number of tasks.
\<close>

theorem get_tasks_filters_orders_pages:
  assumes "(case q_limit q of None \<Rightarrow> Some 10 | Some l \<Rightarrow> sql_integer e l) = Some n"
      and "(case q_offset q of None \<Rightarrow> Some 0 | Some off \<Rightarrow> sql_integer e off) = Some m"
  shows "\<exists>rs.
     fst (serve e w \<lparr>req = GET_tasks q, elapsed = d, fault = None\<rparr>) =
       Response 200 (Tasks rs (length rs)) \<and>
     rs = page n m (order_by_created_at_desc
            (case q_completed q of
               None \<Rightarrow> rows (db w)
             | Some c \<Rightarrow> filter (\<lambda>r. completed r = (if c = ''true'' then 1 else 0)) (rows (db w)))) \<and>
     sorted_wrt (\<lambda>a b. created_at b \<le> created_at a) rs \<and>
     (\<forall>r \<in> set rs. r \<in> set (rows (db w)) \<and>
        (case q_completed q of None \<Rightarrow> True
         | Some c \<Rightarrow> completed r = (if c = ''true'' then 1 else 0))) \<and>
     (0 \<le> n \<longrightarrow> length rs \<le> nat n) \<and>
     (q_completed q = None \<and> m \<le> 0 \<and> (n < 0 \<or> int (length (rows (db w))) \<le> n) \<longrightarrow>
        set rs = set (rows (db w)) \<and> length rs = length (rows (db w)))"
proof -
  let ?cand = "case q_completed q of
               None \<Rightarrow> rows (db w)
             | Some c \<Rightarrow> filter (\<lambda>r. completed r = (if c = ''true'' then 1 else 0)) (rows (db w))"
  let ?rs = "page n m (order_by_created_at_desc ?cand)"
  have res: "fst (serve e w \<lparr>req = GET_tasks q, elapsed = d, fault = None\<rparr>) =
       Response 200 (Tasks ?rs (length ?rs))"
    by (simp add: serve_eq dispatch_app get_tasks_ok [OF assms] Let_def)
  have sorted: "sorted_wrt (\<lambda>a b. created_at b \<le> created_at a) ?rs"
    by (rule sorted_page) (rule sorted_order_by_created_at_desc)
  have sub: "set ?rs \<subseteq> set ?cand"
    using set_page [of n m "order_by_created_at_desc ?cand"]
    by (simp add: set_order_by_created_at_desc)
  have members: "\<forall>r \<in> set ?rs. r \<in> set (rows (db w)) \<and>
        (case q_completed q of None \<Rightarrow> True
         | Some c \<Rightarrow> completed r = (if c = ''true'' then 1 else 0))"
    using sub by (cases "q_completed q") auto
  have bounded: "0 \<le> n \<longrightarrow> length ?rs \<le> nat n"
    by (simp add: length_page)
  have whole: "q_completed q = None \<and> m \<le> 0 \<and> (n < 0 \<or> int (length (rows (db w))) \<le> n) \<longrightarrow>
        set ?rs = set (rows (db w)) \<and> length ?rs = length (rows (db w))"
    by (auto simp: page_all set_order_by_created_at_desc length_order_by_created_at_desc)
  show ?thesis
    using res sorted members bounded whole by (intro exI [of _ ?rs] conjI) simp_all
qed

theorem get_tasks_filters_orders_pages_witness:
  "sql_integer development ''10'' = Some 10 \<and> sql_integer development ''0'' = Some 0 \<and>
   fst (serve development two_tasks
     (after 1 (GET_tasks \<lparr>q_completed = Some ''true'', q_limit = Some ''10'', q_offset = Some ''0''\<rparr>))) =
     Response 200 (Tasks [\<lparr>task_id = 2, title = ''Ship release'', description = None,
       completed = 1, created_at = 12, updated_at = 12\<rparr>] 1) \<and>
   fst (serve development two_tasks
     (after 1 (GET_tasks \<lparr>q_completed = None, q_limit = Some ''10'', q_offset = Some ''0''\<rparr>))) =
     Response 200 (Tasks
       [\<lparr>task_id = 2, title = ''Ship release'', description = None,
          completed = 1, created_at = 12, updated_at = 12\<rparr>,
        \<lparr>task_id = 1, title = ''Buy milk'', description = None,
          completed = 0, created_at = 7, updated_at = 7\<rparr>] 2)"
proof -
  let ?done = "\<lparr>q_completed = Some ''true'', q_limit = Some ''10'', q_offset = Some ''0''\<rparr>"
  let ?any = "\<lparr>q_completed = None, q_limit = Some ''10'', q_offset = Some ''0''\<rparr>"
  have limit: "sql_integer development ''10'' = Some 10"
    by code_simp
  have offset: "sql_integer development ''0'' = Some 0"
    by code_simp
  have table: "rows (db two_tasks) =
      [\<lparr>task_id = 1, title = ''Buy milk'', description = None,
          completed = 0, created_at = 7, updated_at = 7\<rparr>,
       \<lparr>task_id = 2, title = ''Ship release'', description = None,
          completed = 1, created_at = 12, updated_at = 12\<rparr>]"
    by code_simp
  have "(case q_limit ?done of None \<Rightarrow> Some 10 | Some l \<Rightarrow> sql_integer development l) = Some 10"
    and "(case q_offset ?done of None \<Rightarrow> Some 0 | Some off \<Rightarrow> sql_integer development off) = Some 0"
    using limit offset by simp_all
  from get_tasks_filters_orders_pages [OF this, of two_tasks 1]
  have filtered: "fst (serve development two_tasks (after 1 (GET_tasks ?done))) =
     Response 200 (Tasks [\<lparr>task_id = 2, title = ''Ship release'', description = None,
       completed = 1, created_at = 12, updated_at = 12\<rparr>] 1)"
    by (simp add: after_def table page_def order_by_created_at_desc_def)
  have "(case q_limit ?any of None \<Rightarrow> Some 10 | Some l \<Rightarrow> sql_integer development l) = Some 10"
    and "(case q_offset ?any of None \<Rightarrow> Some 0 | Some off \<Rightarrow> sql_integer development off) = Some 0"
    using limit offset by simp_all
  from get_tasks_filters_orders_pages [OF this, of two_tasks 1]
  have unfiltered: "fst (serve development two_tasks (after 1 (GET_tasks ?any))) =
     Response 200 (Tasks
       [\<lparr>task_id = 2, title = ''Ship release'', description = None,
          completed = 1, created_at = 12, updated_at = 12\<rparr>,
        \<lparr>task_id = 1, title = ''Buy milk'', description = None,
          completed = 0, created_at = 7, updated_at = 7\<rparr>] 2)"
    by (simp add: after_def table page_def order_by_created_at_desc_def)
  from limit offset filtered unfiltered show ?thesis
    by (intro conjI)
qed

section \<open>Limit and offset\<close>

text \<open>
  C7, as stated, says that a negative or non-numeric limit or offset is rejected before
  any Store call. With \<open>limit=-1\<close> the Store is called with the text \<open>-1\<close>, and the
  response is 200 with the whole table.
\<close>

theorem negative_limit_counterexample:
  "serve development one_task
     (after 1 (GET_tasks \<lparr>q_completed = None, q_limit = Some ''-1'', q_offset = None\<rparr>)) =
   (Response 200 (Tasks [\<lparr>task_id = 1, title = ''Buy milk'', description = None, completed = 0,
       created_at = 7, updated_at = 7\<rparr>] 1),
    \<lparr>db = db one_task, clock = 8\<rparr>,
    [ListPage None (Text ''-1'') (Num 0)])"
  by code_simp

text \<open>
  C7, amended. \<open>GET /tasks\<close> checks neither limit nor offset: for every request, the
  handler makes one Store call, and that call carries the client's text for each of the
  two, whatever it is; when limit or offset is absent, the defaults 10 and 0 are used.
\<close>

theorem limit_and_offset_reach_the_store:
  "snd (snd (serve e w \<lparr>req = GET_tasks q, elapsed = d, fault = f\<rparr>)) =
     [ListPage
        (case q_completed q of None \<Rightarrow> None
         | Some c \<Rightarrow> Some (if c = ''true'' then 1 else 0))
        (case q_limit q of None \<Rightarrow> Num 10 | Some l \<Rightarrow> Text l)
        (case q_offset q of None \<Rightarrow> Num 0 | Some off \<Rightarrow> Text off)]"
  by (simp add: serve_eq dispatch_app get_tasks_def Let_def
      split: prod.splits sum.splits outcome.splits)

theorem limit_and_offset_reach_the_store_witness:
  "snd (snd (serve development one_task
     \<lparr>req = GET_tasks \<lparr>q_completed = Some ''yes'', q_limit = Some ''abc'', q_offset = None\<rparr>,
      elapsed = 1, fault = None\<rparr>)) =
     [ListPage (Some 0) (Text ''abc'') (Num 0)]"
  using limit_and_offset_reach_the_store [of development one_task
      "\<lparr>q_completed = Some ''yes'', q_limit = Some ''abc'', q_offset = None\<rparr>" 1 None]
  by simp

section \<open>Faults of the engine\<close>

text \<open>
  \<open>server.js\<close> registers \<open>errorHandler\<close> before the routes. An error that a route passes
  to \<open>next\<close> is looked for in the layers after the route, finds none, and ends at
  Express's default handler: the status is 500, the body is an HTML page, and outside
  production the page shows the stack of the error. In the model, where every body
  arrives parsed, no response carries the body \<open>{error: ...}\<close> of \<open>errorHandler\<close>; in
  the server only an error of \<open>express.json()\<close>, the one layer registered before it,
  reaches \<open>errorHandler\<close>.
\<close>

lemma store_fault_response:
  assumes "validationResult b = []"
  shows "fst (serve e w \<lparr>req = POST_tasks b, elapsed = d, fault = Some err\<rparr>) =
           Response 500 (Html (if production e then ''Internal Server Error'' else stack err))"
  using assms
  by (simp add: serve_eq dispatch_app post_tasks_def engine_def finalhandler_def Let_def)

lemma errorHandler_never_answers:
  "payload (fst (serve e w ev)) \<noteq> Error m"
proof (cases "req ev")
  case (POST_tasks b)
  then show ?thesis
    by (simp add: serve_eq dispatch_app post_tasks_def finalhandler_def Let_def
        split: prod.splits sum.splits outcome.splits option.splits)
next
  case (PUT_task i b)
  then show ?thesis
    by (simp add: serve_eq dispatch_app put_task_def finalhandler_def Let_def
        split: prod.splits sum.splits outcome.splits option.splits)
next
  case (GET_tasks q)
  then show ?thesis
    by (simp add: serve_eq dispatch_app get_tasks_def finalhandler_def Let_def
        split: prod.splits sum.splits outcome.splits option.splits)
next
  case (GET_task i)
  then show ?thesis
    by (simp add: serve_eq dispatch_app get_task_def finalhandler_def Let_def
        split: prod.splits sum.splits outcome.splits option.splits)
next
  case (DELETE_task i)
  then show ?thesis
    by (simp add: serve_eq dispatch_app delete_task_def finalhandler_def Let_def
        split: prod.splits sum.splits outcome.splits option.splits)
qed (simp_all add: serve_eq dispatch_app get_root_def finalhandler_def)

text \<open>Registered after the routes, the same handler would answer the same fault.\<close>

lemma errorHandler_registered_last:
  assumes "validationResult b = []"
  shows "fst (dispatch [Use_json, Route_root, Route_post_tasks, Route_get_tasks, Route_get_task,
                 Route_put_task, Route_delete_task, Use_errorHandler]
            None e (Some err) now s (POST_tasks b) []) = Response 500 (Error ''Something went wrong!'')"
  using assms
  by (simp add: handle_def post_tasks_def engine_def errorHandler_def Let_def)

text \<open>
  C8. The specification asks for status 500 with a JSON body holding a generic message and no
  internal detail. When the \<open>INSERT\<close> of a valid \<open>POST /tasks\<close> fails with a disk error,
  the status is 500, but the body is the default handler's page with the text of the
  error, not the body \<open>errorHandler\<close> would send.
\<close>

theorem store_fault_reaches_default_handler:
  "serve development boot \<lparr>req = POST_tasks buy_milk, elapsed = 0, fault = Some disk_error\<rparr> =
     (Response 500 (Html ''Error: SQLITE_IOERR: disk I/O error''), boot,
      [Insert (Some ''Buy milk'') None 0]) \<and>
   errorHandler disk_error = Response 500 (Error ''Something went wrong!'')"
  by code_simp

section \<open>Sanitized text\<close>

lemma escape_char_no_markup: "set (escape_char c) \<inter> markup_chars = {}"
  by (simp add: escape_char_def markup_chars_def)

lemma escape_no_markup: "set (escape s) \<inter> markup_chars = {}"
  using escape_char_no_markup by (fastforce simp: escape_def)

lemma ltrim_head: "ltrim s \<noteq> [] \<Longrightarrow> \<not> is_space (hd (ltrim s))"
  unfolding ltrim_def by (rule hd_dropWhile)

lemma rtrim_last: "rtrim s \<noteq> [] \<Longrightarrow> \<not> is_space (last (rtrim s))"
  unfolding rtrim_def by (simp add: last_rev hd_dropWhile)

lemma rtrim_head: "s \<noteq> [] \<Longrightarrow> \<not> is_space (hd s) \<Longrightarrow> rtrim s \<noteq> [] \<and> hd (rtrim s) = hd s"
proof (induction s rule: rev_induct)
  case Nil
  then show ?case by simp
next
  case (snoc x xs)
  show ?case
  proof (cases "xs = []")
    case True
    with snoc.prems show ?thesis by (simp add: rtrim_def)
  next
    case False
    with snoc show ?thesis by (auto simp: rtrim_def)
  qed
qed

text \<open>A trimmed text neither starts nor ends with whitespace.\<close>

lemma trim_ends:
  "trim s = [] \<or> (\<not> is_space (hd (trim s)) \<and> \<not> is_space (last (trim s)))"
proof (cases "ltrim s = []")
  case True
  then show ?thesis by (simp add: trim_def rtrim_def)
next
  case False
  with ltrim_head have "\<not> is_space (hd (ltrim s))" by simp
  with False have "rtrim (ltrim s) \<noteq> [] \<and> hd (rtrim (ltrim s)) = hd (ltrim s)"
    by (simp add: rtrim_head)
  with \<open>\<not> is_space (hd (ltrim s))\<close> rtrim_last [of "ltrim s"] show ?thesis
    by (simp add: trim_def)
qed

text \<open>
  C9. For every body that passes validation, the Store call of \<open>POST /tasks\<close> and of
  \<open>PUT /tasks/:id\<close> carries as title the escaped form of the trimmed title, and as
  description the escaped form of the trimmed description when the body has one (and
  \<open>NULL\<close> when it has none); the row inserted, and every row updated, holds exactly these
  two values, and neither contains a quote, an angle bracket, a slash, a backslash or a
  backtick.
\<close>

theorem stored_text_is_sanitized:
  assumes "validationResult b = []"
  shows "snd (snd (serve e w \<lparr>req = POST_tasks b, elapsed = d, fault = None\<rparr>)) =
           [Insert (Some (escape (trim (toString (b ''title'')))))
              (if b ''description'' = JUndefined then None
               else Some (escape (trim (toString (b ''description'')))))
              (if truthy (b ''completed'') then 1 else 0)] \<and>
         snd (snd (serve e w \<lparr>req = PUT_task i b, elapsed = d, fault = None\<rparr>)) =
           [Update (Some (escape (trim (toString (b ''title'')))))
              (if b ''description'' = JUndefined then None
               else Some (escape (trim (toString (b ''description'')))))
              (if truthy (b ''completed'') then 1 else 0) i] \<and>
         map title (rows (db (step e w \<lparr>req = POST_tasks b, elapsed = d, fault = None\<rparr>))) =
           map title (rows (db w)) @ [escape (trim (toString (b ''title'')))] \<and>
         map description (rows (db (step e w \<lparr>req = POST_tasks b, elapsed = d, fault = None\<rparr>))) =
           map description (rows (db w)) @
             [if b ''description'' = JUndefined then None
              else Some (escape (trim (toString (b ''description''))))] \<and>
         map title (rows (db (step e w \<lparr>req = PUT_task i b, elapsed = d, fault = None\<rparr>))) =
           map (\<lambda>r. if task_id r = i then escape (trim (toString (b ''title''))) else title r)
             (rows (db w)) \<and>
         map description (rows (db (step e w \<lparr>req = PUT_task i b, elapsed = d, fault = None\<rparr>))) =
           map (\<lambda>r. if task_id r = i
                    then (if b ''description'' = JUndefined then None
                          else Some (escape (trim (toString (b ''description'')))))
                    else description r)
             (rows (db w)) \<and>
         set (escape (trim (toString (b ''title'')))) \<inter> markup_chars = {} \<and>
         set (escape (trim (toString (b ''description'')))) \<inter> markup_chars = {}"
proof -
  let ?t = "escape (trim (toString (b ''title'')))"
  let ?d = "if b ''description'' = JUndefined then None
            else Some (escape (trim (toString (b ''description''))))"
  have desc: "bind_text (sanitized b ''description'') = ?d"
    by (simp add: sanitized_description)
  have same: "filter (\<lambda>r. task_id r = i) rs = [] \<Longrightarrow>
      map f rs = map (\<lambda>r. if task_id r = i then g r else f r) rs"
    for f g :: "task \<Rightarrow> 'a" and rs
    by (induction rs) (auto split: if_splits)
  have post_call: "snd (snd (serve e w \<lparr>req = POST_tasks b, elapsed = d, fault = None\<rparr>)) =
      [Insert (Some ?t) ?d (if truthy (b ''completed'') then 1 else 0)]"
    by (simp add: serve_eq dispatch_app post_tasks_valid [OF assms] desc)
  have put_call: "snd (snd (serve e w \<lparr>req = PUT_task i b, elapsed = d, fault = None\<rparr>)) =
      [Update (Some ?t) ?d (if truthy (b ''completed'') then 1 else 0) i]"
    by (simp add: serve_eq dispatch_app put_task_valid [OF assms] desc)
  have post_title:
    "map title (rows (db (step e w \<lparr>req = POST_tasks b, elapsed = d, fault = None\<rparr>))) =
       map title (rows (db w)) @ [?t]"
    by (simp add: step_eq dispatch_app post_tasks_valid [OF assms])
  have post_desc:
    "map description (rows (db (step e w \<lparr>req = POST_tasks b, elapsed = d, fault = None\<rparr>))) =
       map description (rows (db w)) @ [?d]"
    by (simp add: step_eq dispatch_app post_tasks_valid [OF assms] desc)
  have put_title:
    "map title (rows (db (step e w \<lparr>req = PUT_task i b, elapsed = d, fault = None\<rparr>))) =
       map (\<lambda>r. if task_id r = i then ?t else title r) (rows (db w))"
    using same [of "rows (db w)" title "\<lambda>r. ?t"]
    by (simp add: step_eq dispatch_app put_task_valid [OF assms] o_def if_distrib cong: if_cong)
  have put_desc:
    "map description (rows (db (step e w \<lparr>req = PUT_task i b, elapsed = d, fault = None\<rparr>))) =
       map (\<lambda>r. if task_id r = i then ?d else description r) (rows (db w))"
    using same [of "rows (db w)" description "\<lambda>r. ?d"]
    by (simp add: step_eq dispatch_app put_task_valid [OF assms] desc o_def if_distrib
        cong: if_cong)
  show ?thesis
    using post_call put_call post_title post_desc put_title put_desc
      escape_no_markup [of "trim (toString (b ''title''))"]
      escape_no_markup [of "trim (toString (b ''description''))"]
    by (intro conjI)
qed

theorem stored_text_is_sanitized_witness:
  "validationResult markup_title = [] \<and>
   snd (snd (serve development one_task
     \<lparr>req = POST_tasks markup_title, elapsed = 1, fault = None\<rparr>)) =
     [Insert (Some ''&lt;b&gt;Buy milk&lt;&#x2F;b&gt;'') (Some ''2 l'') 0] \<and>
   snd (snd (serve development one_task
     \<lparr>req = PUT_task 1 markup_title, elapsed = 1, fault = None\<rparr>)) =
     [Update (Some ''&lt;b&gt;Buy milk&lt;&#x2F;b&gt;'') (Some ''2 l'') 0 1] \<and>
   map title (rows (db (step development one_task
     \<lparr>req = POST_tasks markup_title, elapsed = 1, fault = None\<rparr>))) =
     [''Buy milk'', ''&lt;b&gt;Buy milk&lt;&#x2F;b&gt;''] \<and>
   map title (rows (db (step development one_task
     \<lparr>req = PUT_task 1 markup_title, elapsed = 1, fault = None\<rparr>))) =
     [''&lt;b&gt;Buy milk&lt;&#x2F;b&gt;'']"
proof -
  have valid: "validationResult markup_title = []"
    by code_simp
  have title: "escape (trim (toString (markup_title ''title''))) =
      ''&lt;b&gt;Buy milk&lt;&#x2F;b&gt;''"
    by code_simp
  have description: "escape (trim (toString (markup_title ''description''))) = ''2 l''"
    by code_simp
  have present: "markup_title ''description'' \<noteq> JUndefined"
    by code_simp
  have flag: "\<not> truthy (markup_title ''completed'')"
    by code_simp
  have table: "rows (db one_task) =
      [\<lparr>task_id = 1, title = ''Buy milk'', description = None, completed = 0,
         created_at = 7, updated_at = 7\<rparr>]"
    by code_simp
  from stored_text_is_sanitized [OF valid, of development one_task 1 1] valid
  show ?thesis
    by (simp add: title description present flag table)
qed

section \<open>The string \<open>"false"\<close> as completion flag\<close>

text \<open>
  C10. For every body whose \<open>completed\<close> is the string \<open>"false"\<close> (and whose title is
  not empty), validation reports no error; \<open>POST /tasks\<close> inserts a row whose
  \<open>completed\<close> is 1 and answers 201 with \<open>completed: true\<close>; \<open>PUT /tasks/:id\<close> calls the
  Store with \<open>completed\<close> 1 and every row it updates then holds 1.
\<close>

theorem string_false_is_stored_as_completed:
  assumes "b ''completed'' = JStr ''false''" and "toString (b ''title'') \<noteq> []"
  shows "validationResult b = [] \<and>
     (\<exists>i t de. serve e w \<lparr>req = POST_tasks b, elapsed = d, fault = None\<rparr> =
        (Response 201 (Created i t de True),
         \<lparr>db = \<lparr>rows = rows (db w) @
                 [\<lparr>task_id = i, title = escape (trim (toString (b ''title''))),
                   description = bind_text de, completed = 1,
                   created_at = clock w + d, updated_at = clock w + d\<rparr>], seq = i\<rparr>,
           clock = clock w + d\<rparr>,
         [Insert (Some (escape (trim (toString (b ''title''))))) (bind_text de) 1])) \<and>
     snd (snd (serve e w \<lparr>req = PUT_task j b, elapsed = d, fault = None\<rparr>)) =
       [Update (Some (escape (trim (toString (b ''title'')))))
          (bind_text (sanitized b ''description'')) 1 j] \<and>
     map completed (rows (db (step e w \<lparr>req = PUT_task j b, elapsed = d, fault = None\<rparr>))) =
       map (\<lambda>r. if task_id r = j then 1 else completed r) (rows (db w))"
proof -
  have valid: "validationResult b = []"
    using assms by (simp add: validationResult_eq isBoolean_def)
  have same: "filter (\<lambda>r. task_id r = j) rs = [] \<Longrightarrow>
      map completed rs = map (\<lambda>r. if task_id r = j then 1 else completed r) rs" for rs
    by (induction rs) (auto split: if_splits)
  have "map completed (rows (db (step e w \<lparr>req = PUT_task j b, elapsed = d, fault = None\<rparr>))) =
       map (\<lambda>r. if task_id r = j then 1 else completed r) (rows (db w))"
    using same [of "rows (db w)"] assms(1)
    by (simp add: step_eq dispatch_app put_task_valid [OF valid] o_def if_distrib cong: if_cong)
  then show ?thesis
    using valid assms(1)
    by (simp add: serve_eq step_eq dispatch_app post_tasks_valid [OF valid]
        put_task_valid [OF valid])
qed

theorem string_false_is_stored_as_completed_witness:
  "string_false ''completed'' = JStr ''false'' \<and> toString (string_false ''title'') \<noteq> [] \<and>
   validationResult string_false = [] \<and>
   fst (serve development one_task \<lparr>req = POST_tasks string_false, elapsed = 1, fault = None\<rparr>) =
     Response 201 (Created 2 (JStr ''Buy milk'') JUndefined True) \<and>
   map completed (rows (db (step development one_task
     \<lparr>req = POST_tasks string_false, elapsed = 1, fault = None\<rparr>))) = [0, 1] \<and>
   snd (snd (serve development one_task
     \<lparr>req = PUT_task 1 string_false, elapsed = 1, fault = None\<rparr>)) =
     [Update (Some ''Buy milk'') None 1 1] \<and>
   map completed (rows (db (step development one_task
     \<lparr>req = PUT_task 1 string_false, elapsed = 1, fault = None\<rparr>))) = [1]"
proof -
  have flag: "string_false ''completed'' = JStr ''false''"
    by code_simp
  have named: "toString (string_false ''title'') \<noteq> []"
    by code_simp
  have post: "fst (serve development one_task
      \<lparr>req = POST_tasks string_false, elapsed = 1, fault = None\<rparr>) =
     Response 201 (Created 2 (JStr ''Buy milk'') JUndefined True)"
    by code_simp
  have posted: "map completed (rows (db (step development one_task
     \<lparr>req = POST_tasks string_false, elapsed = 1, fault = None\<rparr>))) = [0, 1]"
    by code_simp
  have title: "escape (trim (toString (string_false ''title''))) = ''Buy milk''"
    by code_simp
  have description: "bind_text (sanitized string_false ''description'') = None"
    by code_simp
  have table: "rows (db one_task) =
      [\<lparr>task_id = 1, title = ''Buy milk'', description = None, completed = 0,
         created_at = 7, updated_at = 7\<rparr>]"
    by code_simp
  from string_false_is_stored_as_completed [OF flag named, of development one_task 1 1]
  have "validationResult string_false = [] \<and>
     snd (snd (serve development one_task
       \<lparr>req = PUT_task 1 string_false, elapsed = 1, fault = None\<rparr>)) =
       [Update (Some ''Buy milk'') None 1 1] \<and>
     map completed (rows (db (step development one_task
       \<lparr>req = PUT_task 1 string_false, elapsed = 1, fault = None\<rparr>))) = [1]"
    by (simp add: title description table)
  with flag named post posted show ?thesis
    by (intro conjI) (erule conjE | assumption)+
qed

end
